theory Spec2Isabelle
  imports Complex_Main "HOL-Library.Word"
begin

section \<open>Data model\<close>

text \<open>
  The service in \<^verbatim>\<open>app/services/skin_tone.py\<close> works on numpy arrays of shape
  height x width x 3. An array is modelled by its two spatial dimensions and its pixels
  in row-major order (numpy's default layout), a pixel being the triple of its three
  channel samples. The pixel at row \<open>i\<close>, column \<open>j\<close> is \<open>data arr ! (i * width arr + j)\<close>.

  An RGB raster holds 8-bit samples. A Lab image holds float64 samples; the floats are
  read as the real numbers they denote, so that comparison, addition, clipping and the
  mean are the exact ones (rounding of float arithmetic and NaN are outside the model).
\<close>

record 'a array =
  height :: nat
  width :: nat
  data :: "'a list"

type_synonym rgb = "8 word \<times> 8 word \<times> 8 word"
type_synonym lab = "real \<times> real \<times> real"

datatype ndarray = U8 (u8: "rgb array") | F64 (f64: "lab array")

text \<open>
  Any Python exception raised inside a \<^verbatim>\<open>try\<close> block. The handlers of the service
  catch \<^verbatim>\<open>Exception\<close> and only print its text, so one value is enough.
\<close>

datatype error = Exception

definition SKIN_TONE_CATEGORIES :: "string list" where
  "SKIN_TONE_CATEGORIES =
     [''Fair'', ''Light'', ''Medium'', ''Olive'', ''Tan'', ''Deep'', ''Dark'']"

text \<open>The dictionary \<^verbatim>\<open>COLOR_RECOMMENDATIONS\<close>, in the order of its literal.\<close>

definition COLOR_RECOMMENDATIONS_items :: "(string \<times> string list) list" where
  "COLOR_RECOMMENDATIONS_items =
     [(''Fair'',   [''#E6B3B3'', ''#D1E6B3'', ''#B3E6CC'', ''#B3CCE6'', ''#D1B3E6'', ''#800000'', ''#008080'']),
      (''Light'',  [''#FFB6C1'', ''#98FB98'', ''#ADD8E6'', ''#DDA0DD'', ''#F08080'', ''#4682B4'', ''#556B2F'']),
      (''Medium'', [''#FF6347'', ''#6B8E23'', ''#4169E1'', ''#BA55D3'', ''#20B2AA'', ''#CD5C5C'', ''#DAA520'']),
      (''Olive'',  [''#FF4500'', ''#2E8B57'', ''#9932CC'', ''#8B4513'', ''#008B8B'', ''#B8860B'', ''#C71585'']),
      (''Tan'',    [''#FF8C00'', ''#006400'', ''#8B008B'', ''#E9967A'', ''#8FBC8F'', ''#483D8B'', ''#B22222'']),
      (''Deep'',   [''#FFA500'', ''#00FF00'', ''#FF00FF'', ''#00FFFF'', ''#FFFF00'', ''#800080'', ''#DC143C'']),
      (''Dark'',   [''#FFD700'', ''#7CFC00'', ''#FF1493'', ''#00BFFF'', ''#F0E68C'', ''#ADFF2F'', ''#FF69B4''])]"

definition COLOR_RECOMMENDATIONS :: "string \<rightharpoonup> string list" where
  "COLOR_RECOMMENDATIONS = map_of COLOR_RECOMMENDATIONS_items"

section \<open>Palette lookup\<close>

text \<open>
  \<^verbatim>\<open>if skin_tone in COLOR_RECOMMENDATIONS: return COLOR_RECOMMENDATIONS[skin_tone]\<close>
  \<^verbatim>\<open>else: return COLOR_RECOMMENDATIONS["Medium"]\<close>.
  The subscript on a missing key would raise \<^verbatim>\<open>KeyError\<close>; the model keeps that branch.
\<close>

definition subscript :: "('k \<rightharpoonup> 'v) \<Rightarrow> 'k \<Rightarrow> error + 'v" where
  "subscript d k = (case d k of None \<Rightarrow> Inl Exception | Some v \<Rightarrow> Inr v)"

definition get_color_recommendations :: "string \<Rightarrow> error + string list" where
  "get_color_recommendations skin_tone =
     (if skin_tone \<in> dom COLOR_RECOMMENDATIONS
      then subscript COLOR_RECOMMENDATIONS skin_tone
      else subscript COLOR_RECOMMENDATIONS ''Medium'')"

section \<open>Skin segmentation\<close>

text \<open>
  The mask expression of the source, written three times there with different bands:
  \<^verbatim>\<open>(lab[:,:,0] >= l_range[0]) & (lab[:,:,0] <= l_range[1]) & (lab[:,:,1] >= a_range[0]) & ...\<close>.
  The result is a boolean array of the shape of the Lab image.
\<close>

definition in_bands :: "real \<times> real \<Rightarrow> real \<times> real \<Rightarrow> real \<times> real \<Rightarrow> lab \<Rightarrow> bool" where
  "in_bands l_range a_range b_range px =
     (case px of (l, a, b) \<Rightarrow>
        (l \<ge> fst l_range) \<and> (l \<le> snd l_range) \<and>
        (a \<ge> fst a_range) \<and> (a \<le> snd a_range) \<and>
        (b \<ge> fst b_range) \<and> (b \<le> snd b_range))"

definition skin_mask :: "real \<times> real \<Rightarrow> real \<times> real \<Rightarrow> real \<times> real \<Rightarrow> lab array \<Rightarrow> bool array" where
  "skin_mask l_range a_range b_range lab_image =
     \<lparr>height = height lab_image, width = width lab_image,
      data = map (in_bands l_range a_range b_range) (data lab_image)\<rparr>"

definition strict_mask :: "lab array \<Rightarrow> bool array" where
  "strict_mask lab_image = skin_mask (50, 80) (5, 30) (10, 40) lab_image"

definition lenient_mask :: "lab array \<Rightarrow> bool array" where
  "lenient_mask lab_image = skin_mask (30, 90) (0, 35) (5, 45) lab_image"

text \<open>\<^verbatim>\<open>np.sum(mask)\<close> on a boolean array: the number of true entries.\<close>

definition np_sum :: "bool array \<Rightarrow> nat" where
  "np_sum bools = length (filter (\<lambda>m. m) (data bools))"

section \<open>numpy operations used by the service\<close>

text \<open>
  The view \<^verbatim>\<open>arr[:,:,k]\<close> of one channel. The source uses \<open>k = 0, 1, 2\<close> only.
\<close>

definition channel :: "nat \<Rightarrow> real \<times> real \<times> real \<Rightarrow> real" where
  "channel k px = (case px of (l, a, b) \<Rightarrow> if k = 0 then l else if k = 1 then a else b)"

definition set_channel :: "nat \<Rightarrow> real \<Rightarrow> real \<times> real \<times> real \<Rightarrow> real \<times> real \<times> real" where
  "set_channel k v px =
     (case px of (l, a, b) \<Rightarrow> if k = 0 then (v, a, b) else if k = 1 then (l, v, b) else (l, a, v))"

definition channel_view :: "nat \<Rightarrow> lab array \<Rightarrow> real array" where
  "channel_view k arr =
     \<lparr>height = height arr, width = width arr, data = map (channel k) (data arr)\<rparr>"

definition same_shape :: "'a array \<Rightarrow> 'b array \<Rightarrow> bool" where
  "same_shape x y \<longleftrightarrow>
     height x = height y \<and> width x = width y \<and> length (data x) = length (data y)"

text \<open>
  Boolean indexing \<^verbatim>\<open>arr[bools]\<close>: the entries of \<open>arr\<close> where \<open>bools\<close> is true, in
  row-major order. numpy raises \<^verbatim>\<open>IndexError\<close> when the shapes differ.
\<close>

definition bool_index :: "'a array \<Rightarrow> bool array \<Rightarrow> error + 'a list" where
  "bool_index arr bools =
     (if same_shape arr bools
      then Inr (map fst (filter snd (zip (data arr) (data bools))))
      else Inl Exception)"

text \<open>
  Boolean-index assignment into a channel view, \<^verbatim>\<open>arr[:,:,k][bools] = vals\<close>: the
  true positions of channel \<open>k\<close> receive the values in order, every other sample stays.
  numpy raises when there are fewer or more values than true positions (it would
  broadcast a single value; the source always supplies one value per true position).
\<close>

fun put_masked :: "nat \<Rightarrow> lab list \<Rightarrow> bool list \<Rightarrow> real list \<Rightarrow> error + lab list" where
  "put_masked k [] [] [] = Inr []"
| "put_masked k (px # pxs) (m # ms) vs =
     (if m then
        (case vs of
           [] \<Rightarrow> Inl Exception
         | v # vs' \<Rightarrow>
             (case put_masked k pxs ms vs' of
                Inl e \<Rightarrow> Inl e
              | Inr pxs' \<Rightarrow> Inr (set_channel k v px # pxs')))
      else
        (case put_masked k pxs ms vs of
           Inl e \<Rightarrow> Inl e
         | Inr pxs' \<Rightarrow> Inr (px # pxs')))"
| "put_masked k _ _ _ = Inl Exception"

definition assign_masked :: "nat \<Rightarrow> lab array \<Rightarrow> bool array \<Rightarrow> real list \<Rightarrow> error + lab array" where
  "assign_masked k arr bools vals =
     (if same_shape arr bools
      then (case put_masked k (data arr) (data bools) vals of
              Inl e \<Rightarrow> Inl e
            | Inr pxs \<Rightarrow> Inr \<lparr>height = height arr, width = width arr, data = pxs\<rparr>)
      else Inl Exception)"

text \<open>
  \<^verbatim>\<open>np.mean\<close> of a one-dimensional float array. On an empty array numpy returns NaN
  with a warning; the source calls it only on a non-empty selection.
\<close>

definition np_mean :: "real list \<Rightarrow> real" where
  "np_mean xs = sum_list xs / real (length xs)"

text \<open>\<^verbatim>\<open>np.clip(x, lo, hi)\<close> on one sample.\<close>

definition clip :: "real \<Rightarrow> real \<Rightarrow> real \<Rightarrow> real" where
  "clip x lo hi = min (max x lo) hi"

text \<open>\<^verbatim>\<open>d.get(k, dflt)\<close> on a dictionary.\<close>

definition dict_get :: "('k \<rightharpoonup> 'v) \<Rightarrow> 'k \<Rightarrow> 'v \<Rightarrow> 'v" where
  "dict_get d k dflt = (case d k of None \<Rightarrow> dflt | Some v \<Rightarrow> v)"

section \<open>Tone classification\<close>

text \<open>
  The external conversion \<^verbatim>\<open>skimage.color.rgb2lab\<close> is a parameter: a function from
  the array it is given to a Lab image, or to an exception (wrong shape, wrong type).

  The mask of the classifier: the strict bands first, the lenient bands when the
  strict mask has fewer than 100 true pixels.
\<close>

definition detect_mask :: "lab array \<Rightarrow> bool array" where
  "detect_mask lab_image =
     (let skin_mask0 = strict_mask lab_image
      in if np_sum skin_mask0 < 100 then lenient_mask lab_image else skin_mask0)"

text \<open>The \<^verbatim>\<open>if\<close>/\<^verbatim>\<open>elif\<close> chain on the average lightness.\<close>

definition classify :: "real \<Rightarrow> string" where
  "classify avg_lightness =
     (if avg_lightness \<ge> 75 then ''Fair''
      else if avg_lightness \<ge> 70 then ''Light''
      else if avg_lightness \<ge> 65 then ''Medium''
      else if avg_lightness \<ge> 60 then ''Olive''
      else if avg_lightness \<ge> 55 then ''Tan''
      else if avg_lightness \<ge> 50 then ''Deep''
      else ''Dark'')"

text \<open>The body of the \<^verbatim>\<open>try\<close> block of \<^verbatim>\<open>detect_skin_tone\<close>.\<close>

definition detect_skin_tone_try :: "(ndarray \<Rightarrow> error + lab array) \<Rightarrow> ndarray \<Rightarrow> error + string" where
  "detect_skin_tone_try rgb2lab img =
     (case rgb2lab img of
        Inl e \<Rightarrow> Inl e
      | Inr lab_image \<Rightarrow>
          let skin_mask1 = detect_mask lab_image
          in if np_sum skin_mask1 < 100 then Inr ''Medium''
             else (case bool_index (channel_view 0 lab_image) skin_mask1 of
                     Inl e \<Rightarrow> Inl e
                   | Inr skin_l_values \<Rightarrow>
                       let avg_lightness = np_mean skin_l_values
                       in Inr (classify avg_lightness)))"

text \<open>
  \<^verbatim>\<open>detect_skin_tone\<close>: the handler \<^verbatim>\<open>except Exception\<close> prints the error and returns
  \<^verbatim>\<open>"Medium"\<close>. The function only reads its argument and returns a string, so it is a
  function of the array's value.
\<close>

definition detect_skin_tone :: "(ndarray \<Rightarrow> error + lab array) \<Rightarrow> ndarray \<Rightarrow> string" where
  "detect_skin_tone rgb2lab img =
     (case detect_skin_tone_try rgb2lab img of
        Inl e \<Rightarrow> ''Medium''
      | Inr tone \<Rightarrow> tone)"

section \<open>Tone adjustment\<close>

text \<open>
  \<^verbatim>\<open>adjust_skin_tone\<close> writes into arrays in place, so arrays live in a store: a list
  of arrays, a reference being an index. A new array is appended. \<^verbatim>\<open>lab_image.copy()\<close>
  allocates a new array with the same contents.
\<close>

type_synonym heap = "ndarray list"
type_synonym addr = nat

definition alloc :: "heap \<Rightarrow> ndarray \<Rightarrow> heap \<times> addr" where
  "alloc h v = (h @ [v], length h)"

text \<open>The three dictionaries local to \<^verbatim>\<open>adjust_skin_tone\<close>.\<close>

definition target_l_values :: "string \<rightharpoonup> int" where
  "target_l_values = map_of
     [(''Fair'', 78), (''Light'', 72), (''Medium'', 65), (''Olive'', 62),
      (''Tan'', 58), (''Deep'', 52), (''Dark'', 45)]"

definition target_a_adjustments :: "string \<rightharpoonup> int" where
  "target_a_adjustments = map_of
     [(''Fair'', -2), (''Light'', -1), (''Medium'', 0), (''Olive'', 1),
      (''Tan'', 2), (''Deep'', 3), (''Dark'', 4)]"

definition target_b_adjustments :: "string \<rightharpoonup> int" where
  "target_b_adjustments = map_of
     [(''Fair'', -2), (''Light'', -1), (''Medium'', 0), (''Olive'', 2),
      (''Tan'', 4), (''Deep'', 5), (''Dark'', 6)]"

text \<open>
  The statement \<^verbatim>\<open>arr[:,:,k][bools] = f(arr[:,:,k][bools])\<close> on the array at \<open>p\<close>:
  the right-hand side reads the masked samples of channel \<open>k\<close>, \<open>f\<close> works on each
  sample, and the assignment writes through the view into the array itself.
\<close>

definition update_masked :: "heap \<Rightarrow> addr \<Rightarrow> nat \<Rightarrow> bool array \<Rightarrow> (real \<Rightarrow> real) \<Rightarrow> error + heap" where
  "update_masked h p k bools f =
     (case bool_index (channel_view k (f64 (h ! p))) bools of
        Inl e \<Rightarrow> Inl e
      | Inr vals \<Rightarrow>
          (case assign_masked k (f64 (h ! p)) bools (map f vals) of
             Inl e \<Rightarrow> Inl e
           | Inr arr \<Rightarrow> Inr (h[p := F64 arr])))"

text \<open>
  \<^verbatim>\<open>np.clip(adjusted_rgb * 255, 0, 255).astype(np.uint8)\<close>: the cast of a float to
  \<^verbatim>\<open>uint8\<close> drops the fraction.
\<close>

definition trunc :: "real \<Rightarrow> int" where
  "trunc x = (if x \<ge> 0 then \<lfloor>x\<rfloor> else \<lceil>x\<rceil>)"

definition to_uint8 :: "real \<Rightarrow> 8 word" where
  "to_uint8 x = word_of_int (trunc (clip (x * 255) 0 255))"

definition quantize_px :: "real \<times> real \<times> real \<Rightarrow> rgb" where
  "quantize_px px = (case px of (r, g, b) \<Rightarrow> (to_uint8 r, to_uint8 g, to_uint8 b))"

definition quantize :: "lab array \<Rightarrow> rgb array" where
  "quantize adjusted_rgb =
     \<lparr>height = height adjusted_rgb, width = width adjusted_rgb,
      data = map quantize_px (data adjusted_rgb)\<rparr>"

text \<open>
  The body of the \<^verbatim>\<open>try\<close> block of \<^verbatim>\<open>adjust_skin_tone\<close>. \<open>img\<close> is the
  reference the caller passes as \<^verbatim>\<open>image\<close>. The result is the store as the block
  leaves it and either the exception raised or the reference to the new raster.
  \<^verbatim>\<open>skimage.color.lab2rgb\<close> is the second parameter; its result is a float array with
  samples nominally in \<open>[0, 1]\<close>. The boolean mask and the float array that
  \<open>lab2rgb\<close> returns are never written and do not leave the function, so they are
  values here; the arrays that are copied, written or returned are in the store.
\<close>

definition adjust_skin_tone_try ::
  "(ndarray \<Rightarrow> error + lab array) \<Rightarrow> (ndarray \<Rightarrow> error + lab array) \<Rightarrow>
     heap \<Rightarrow> addr \<Rightarrow> string \<Rightarrow> heap \<times> (error + addr)" where
  "adjust_skin_tone_try rgb2lab lab2rgb h img target_tone =
     (case rgb2lab (h ! img) of
        Inl e \<Rightarrow> (h, Inl e)
      | Inr lab \<Rightarrow>
     (case alloc h (F64 lab) of (h1, lab_image) \<Rightarrow>
      let skin_mask1 = lenient_mask (f64 (h1 ! lab_image))
      in
     (case (if np_sum skin_mask1 > 0
            then (case bool_index (channel_view 0 (f64 (h1 ! lab_image))) skin_mask1 of
                    Inl e \<Rightarrow> Inl e
                  | Inr vals \<Rightarrow> Inr (np_mean vals))
            else Inr 65) of
        Inl e \<Rightarrow> (h1, Inl e)
      | Inr current_l \<Rightarrow>
      let target_l = dict_get target_l_values target_tone 65;
          l_adjustment = real_of_int target_l - current_l;
          a_adjustment = dict_get target_a_adjustments target_tone 0;
          b_adjustment = dict_get target_b_adjustments target_tone 0
      in
     (case alloc h1 (h1 ! lab_image) of (h2, adjusted_lab) \<Rightarrow>
     (case update_masked h2 adjusted_lab 0 skin_mask1 (\<lambda>x. clip (x + l_adjustment) 0 100) of
        Inl e \<Rightarrow> (h2, Inl e)
      | Inr h3 \<Rightarrow>
     (case update_masked h3 adjusted_lab 1 skin_mask1
             (\<lambda>x. clip (x + real_of_int a_adjustment) (-127) 127) of
        Inl e \<Rightarrow> (h3, Inl e)
      | Inr h4 \<Rightarrow>
     (case update_masked h4 adjusted_lab 2 skin_mask1
             (\<lambda>x. clip (x + real_of_int b_adjustment) (-127) 127) of
        Inl e \<Rightarrow> (h4, Inl e)
      | Inr h5 \<Rightarrow>
     (case lab2rgb (h5 ! adjusted_lab) of
        Inl e \<Rightarrow> (h5, Inl e)
      | Inr adjusted_rgb \<Rightarrow>
     (case alloc h5 (U8 (quantize adjusted_rgb)) of (h6, result) \<Rightarrow>
        (h6, Inr result))))))))))"

text \<open>
  \<^verbatim>\<open>adjust_skin_tone\<close>: the handler prints the error and returns \<open>img\<close> (the
  source's \<^verbatim>\<open>image\<close>), the reference it was given.
\<close>

definition adjust_skin_tone ::
  "(ndarray \<Rightarrow> error + lab array) \<Rightarrow> (ndarray \<Rightarrow> error + lab array) \<Rightarrow>
     heap \<Rightarrow> addr \<Rightarrow> string \<Rightarrow> heap \<times> addr" where
  "adjust_skin_tone rgb2lab lab2rgb h img target_tone =
     (case adjust_skin_tone_try rgb2lab lab2rgb h img target_tone of
        (h', Inl e) \<Rightarrow> (h', img)
      | (h', Inr result) \<Rightarrow> (h', result))"

section \<open>The adjustment as the specification words it\<close>

text \<open>
  The specification describes the adjusted Lab image pixel by pixel: a pixel inside the
  lenient bands is shifted by \<open>target_l - current_l\<close> and by the two offsets of the
  category and clipped; every other pixel is copied. These definitions follow that
  wording, to be compared with the model of the source.
\<close>

definition spec_clip :: "real \<Rightarrow> real \<Rightarrow> real \<Rightarrow> real" where
  "spec_clip x lo hi = (if x < lo then lo else if hi < x then hi else x)"

definition spec_lenient :: "lab \<Rightarrow> bool" where
  "spec_lenient px =
     (case px of (l, a, b) \<Rightarrow> 30 \<le> l \<and> l \<le> 90 \<and> 0 \<le> a \<and> a \<le> 35 \<and> 5 \<le> b \<and> b \<le> 45)"

definition spec_current_l :: "lab array \<Rightarrow> real" where
  "spec_current_l lab =
     (let ls = map fst (filter spec_lenient (data lab))
      in if ls = [] then 65 else sum_list ls / real (length ls))"

definition spec_target_l :: "string \<Rightarrow> real" where
  "spec_target_l t =
     (if t = ''Fair'' then 78 else if t = ''Light'' then 72 else if t = ''Medium'' then 65
      else if t = ''Olive'' then 62 else if t = ''Tan'' then 58 else if t = ''Deep'' then 52
      else if t = ''Dark'' then 45 else 65)"

definition spec_a_offset :: "string \<Rightarrow> real" where
  "spec_a_offset t =
     (if t = ''Fair'' then -2 else if t = ''Light'' then -1 else if t = ''Medium'' then 0
      else if t = ''Olive'' then 1 else if t = ''Tan'' then 2 else if t = ''Deep'' then 3
      else if t = ''Dark'' then 4 else 0)"

definition spec_b_offset :: "string \<Rightarrow> real" where
  "spec_b_offset t =
     (if t = ''Fair'' then -2 else if t = ''Light'' then -1 else if t = ''Medium'' then 0
      else if t = ''Olive'' then 2 else if t = ''Tan'' then 4 else if t = ''Deep'' then 5
      else if t = ''Dark'' then 6 else 0)"

definition spec_adjust_px :: "real \<Rightarrow> real \<Rightarrow> real \<Rightarrow> lab \<Rightarrow> lab" where
  "spec_adjust_px dl da db px =
     (case px of (l, a, b) \<Rightarrow>
        if spec_lenient (l, a, b)
        then (spec_clip (l + dl) 0 100, spec_clip (a + da) (-127) 127, spec_clip (b + db) (-127) 127)
        else (l, a, b))"

definition spec_adjusted_lab :: "lab array \<Rightarrow> string \<Rightarrow> lab array" where
  "spec_adjusted_lab lab t =
     \<lparr>height = height lab, width = width lab,
      data = map (spec_adjust_px (spec_target_l t - spec_current_l lab)
                    (spec_a_offset t) (spec_b_offset t)) (data lab)\<rparr>"



text \<open>
  Two strings that differ only in letter case: different strings with the same
  lower-case form (ASCII letters, as in the seven category names).
\<close>

definition to_lower :: "char \<Rightarrow> char" where
  "to_lower c =
     (case map_of (zip ''ABCDEFGHIJKLMNOPQRSTUVWXYZ'' ''abcdefghijklmnopqrstuvwxyz'') c of
        None \<Rightarrow> c
      | Some l \<Rightarrow> l)"

definition differs_only_in_case :: "string \<Rightarrow> string \<Rightarrow> bool" where
  "differs_only_in_case s c \<longleftrightarrow> s \<noteq> c \<and> map to_lower s = map to_lower c"

section \<open>Auxiliary lemmas\<close>

lemma dom_COLOR_RECOMMENDATIONS:
  "dom COLOR_RECOMMENDATIONS = set SKIN_TONE_CATEGORIES"
  by (simp add: COLOR_RECOMMENDATIONS_def COLOR_RECOMMENDATIONS_items_def
      SKIN_TONE_CATEGORIES_def dom_map_of_conv_image_fst)

lemma count_filter_mono:
  "(\<And>x. x \<in> set xs \<Longrightarrow> P x \<Longrightarrow> Q x) \<Longrightarrow> length (filter P xs) \<le> length (filter Q xs)"
proof (induction xs)
  case Nil
  then show ?case by simp
next
  case (Cons x xs)
  then have "length (filter P xs) \<le> length (filter Q xs)" by simp
  with Cons.prems [of x] show ?case by auto
qed

lemma np_sum_skin_mask:
  "np_sum (skin_mask lr ar br lab_image) = length (filter (in_bands lr ar br) (data lab_image))"
  by (simp add: np_sum_def skin_mask_def filter_map comp_def)

lemma strict_in_lenient:
  "in_bands (50, 80) (5, 30) (10, 40) px \<Longrightarrow> in_bands (30, 90) (0, 35) (5, 45) px"
  by (cases px) (simp add: in_bands_def)

lemma np_sum_strict_le_lenient:
  "np_sum (strict_mask lab_image) \<le> np_sum (lenient_mask lab_image)"
  unfolding strict_mask_def lenient_mask_def np_sum_skin_mask
  by (rule count_filter_mono) (rule strict_in_lenient)

lemma bool_index_channel_mask:
  "bool_index (channel_view k \<lparr>height = hh, width = ww, data = map g xs\<rparr>)
      \<lparr>height = hh, width = ww, data = map P xs\<rparr> =
     Inr (map (\<lambda>x. channel k (g x)) (filter P xs))"
proof -
  have "map fst (filter snd (zip (map f xs) (map P xs))) = map f (filter P xs)"
    for f :: "'a \<Rightarrow> real" and xs :: "'a list"
    by (induction xs) auto
  from this [of "\<lambda>x. channel k (g x)"] show ?thesis
    by (simp add: bool_index_def channel_view_def same_shape_def comp_def)
qed

lemma put_masked_map:
  "put_masked k (map g xs) (map P xs) (map (\<lambda>x. f (channel k (g x))) (filter P xs)) =
     Inr (map (\<lambda>x. if P x then set_channel k (f (channel k (g x))) (g x) else g x) xs)"
  by (induction xs) auto

lemma update_masked_map:
  assumes "p = Suc (length h)"
  shows "update_masked (h @ [c, F64 \<lparr>height = hh, width = ww, data = map g xs\<rparr>]) p k
       \<lparr>height = hh, width = ww, data = map P xs\<rparr> f =
     Inr (h @ [c, F64 \<lparr>height = hh, width = ww,
        data = map (\<lambda>x. if P x then set_channel k (f (channel k (g x))) (g x) else g x) xs\<rparr>])"
  using assms
  by (simp add: update_masked_def nth_append bool_index_channel_mask assign_masked_def
      same_shape_def put_masked_map list_update_append comp_def)

lemma spec_lenient_eq: "in_bands (30, 90) (0, 35) (5, 45) = spec_lenient"
  by (rule ext) (simp add: in_bands_def spec_lenient_def split: prod.splits)

lemma clip_eq: "lo \<le> hi \<Longrightarrow> clip x lo hi = spec_clip x lo hi"
  by (simp add: clip_def spec_clip_def)

lemma dict_get_target_l: "real_of_int (dict_get target_l_values t 65) = spec_target_l t"
  by (simp add: dict_get_def target_l_values_def spec_target_l_def)

lemma dict_get_target_a: "real_of_int (dict_get target_a_adjustments t 0) = spec_a_offset t"
  by (simp add: dict_get_def target_a_adjustments_def spec_a_offset_def)

lemma dict_get_target_b: "real_of_int (dict_get target_b_adjustments t 0) = spec_b_offset t"
  by (simp add: dict_get_def target_b_adjustments_def spec_b_offset_def)

lemma bool_index_skin_mask:
  "bool_index (channel_view k lab) (skin_mask lr ar br lab) =
     Inr (map (channel k) (filter (in_bands lr ar br) (data lab)))"
  using bool_index_channel_mask [of k "height lab" "width lab" "\<lambda>x. x" "data lab" "in_bands lr ar br"]
  by (simp add: skin_mask_def channel_view_def)

lemma channel_0: "channel 0 = fst"
  by (rule ext) (simp add: channel_def split: prod.splits)

lemma current_l_eq:
  "(if np_sum (lenient_mask lab) > 0
    then (case bool_index (channel_view 0 lab) (lenient_mask lab) of
            Inl e \<Rightarrow> Inl e
          | Inr vals \<Rightarrow> Inr (np_mean vals))
    else Inr 65) = (Inr (spec_current_l lab) :: error + real)"
  by (simp add: lenient_mask_def np_sum_skin_mask bool_index_skin_mask spec_lenient_eq
      channel_0 spec_current_l_def np_mean_def Let_def)

lemma three_updates:
  "(\<lambda>x. if P x then set_channel 2 (f2 (channel 2 (if P x then set_channel 1 (f1 (channel 1 (if P x then set_channel 0 (f0 (channel 0 x)) x else x))) (if P x then set_channel 0 (f0 (channel 0 x)) x else x) else (if P x then set_channel 0 (f0 (channel 0 x)) x else x))))
        (if P x then set_channel 1 (f1 (channel 1 (if P x then set_channel 0 (f0 (channel 0 x)) x else x))) (if P x then set_channel 0 (f0 (channel 0 x)) x else x) else (if P x then set_channel 0 (f0 (channel 0 x)) x else x))
      else (if P x then set_channel 1 (f1 (channel 1 (if P x then set_channel 0 (f0 (channel 0 x)) x else x))) (if P x then set_channel 0 (f0 (channel 0 x)) x else x) else (if P x then set_channel 0 (f0 (channel 0 x)) x else x)))
   = (\<lambda>x. case x of (l, a, b) \<Rightarrow> if P (l, a, b) then (f0 l, f1 a, f2 b) else (l, a, b))"
  by (rule ext) (simp add: channel_def set_channel_def split: prod.splits)

lemma adjust_skin_tone_try_Inr:
  assumes "rgb2lab (h ! img) = Inr lab"
  shows "adjust_skin_tone_try rgb2lab lab2rgb h img t =
    (case lab2rgb (F64 (spec_adjusted_lab lab t)) of
       Inl e \<Rightarrow> (h @ [F64 lab, F64 (spec_adjusted_lab lab t)], Inl e)
     | Inr rgbf \<Rightarrow>
         (h @ [F64 lab, F64 (spec_adjusted_lab lab t), U8 (quantize rgbf)], Inr (length h + 2)))"
proof -
  define P where "P = spec_lenient"
  define xs where "xs = data lab"
  define hh where "hh = height lab"
  define ww where "ww = width lab"
  have lab: "\<lparr>height = hh, width = ww, data = xs\<rparr> = lab"
    by (simp add: xs_def hh_def ww_def)
  have mask: "lenient_mask lab = \<lparr>height = hh, width = ww, data = map P xs\<rparr>"
    by (simp add: lenient_mask_def skin_mask_def spec_lenient_eq P_def xs_def hh_def ww_def)
  define f0 where "f0 = (\<lambda>x. clip (x + (spec_target_l t - spec_current_l lab)) 0 100)"
  define f1 where "f1 = (\<lambda>x. clip (x + spec_a_offset t) (-127) 127)"
  define f2 where "f2 = (\<lambda>x. clip (x + spec_b_offset t) (-127) 127)"
  define g0 where "g0 = (\<lambda>x. if P x then set_channel 0 (f0 (channel 0 x)) x else x)"
  define g1 where "g1 = (\<lambda>x. if P x then set_channel 1 (f1 (channel 1 (g0 x))) (g0 x) else g0 x)"
  define g2 where "g2 = (\<lambda>x. if P x then set_channel 2 (f2 (channel 2 (g1 x))) (g1 x) else g1 x)"
  have u0: "update_masked (h @ [F64 lab, F64 lab]) (Suc (length h)) 0 (lenient_mask lab) f0 =
      Inr (h @ [F64 lab, F64 \<lparr>height = hh, width = ww, data = map g0 xs\<rparr>])"
    unfolding mask g0_def
    using update_masked_map [of "Suc (length h)" h "F64 lab" hh ww "\<lambda>x. x" xs 0 P f0]
    by (simp add: lab)
  have u1: "update_masked (h @ [F64 lab, F64 \<lparr>height = hh, width = ww, data = map g0 xs\<rparr>])
        (Suc (length h)) 1 (lenient_mask lab) f1 =
      Inr (h @ [F64 lab, F64 \<lparr>height = hh, width = ww, data = map g1 xs\<rparr>])"
    unfolding mask g1_def by (rule update_masked_map) simp
  from u1 have u1': "update_masked (h @ [F64 lab, F64 \<lparr>height = hh, width = ww, data = map g0 xs\<rparr>])
        (Suc (length h)) (Suc 0) (lenient_mask lab) f1 =
      Inr (h @ [F64 lab, F64 \<lparr>height = hh, width = ww, data = map g1 xs\<rparr>])"
    by simp
  have u2: "update_masked (h @ [F64 lab, F64 \<lparr>height = hh, width = ww, data = map g1 xs\<rparr>])
        (Suc (length h)) 2 (lenient_mask lab) f2 =
      Inr (h @ [F64 lab, F64 \<lparr>height = hh, width = ww, data = map g2 xs\<rparr>])"
    unfolding mask g2_def by (rule update_masked_map) simp
  have g2: "g2 = spec_adjust_px (spec_target_l t - spec_current_l lab) (spec_a_offset t) (spec_b_offset t)"
    unfolding g2_def g1_def g0_def three_updates
    by (rule ext) (simp add: spec_adjust_px_def P_def f0_def f1_def f2_def clip_eq split: prod.splits)
  have adj: "\<lparr>height = hh, width = ww, data = map g2 xs\<rparr> = spec_adjusted_lab lab t"
    by (simp add: spec_adjusted_lab_def g2 hh_def ww_def xs_def)
  show ?thesis
    unfolding adjust_skin_tone_try_def
    by (simp add: assms alloc_def nth_append current_l_eq Let_def dict_get_target_l
        dict_get_target_a dict_get_target_b u0 [unfolded f0_def] u1' [unfolded f1_def]
        u2 [unfolded f2_def] adj split: sum.splits)

qed

lemma distinct_COLOR_RECOMMENDATIONS_keys:
  "distinct (map fst COLOR_RECOMMENDATIONS_items)"
  by (simp add: COLOR_RECOMMENDATIONS_items_def)

lemma Medium_palette:
  "COLOR_RECOMMENDATIONS ''Medium'' =
     Some [''#FF6347'', ''#6B8E23'', ''#4169E1'', ''#BA55D3'', ''#20B2AA'', ''#CD5C5C'', ''#DAA520'']"
  by (simp add: COLOR_RECOMMENDATIONS_def COLOR_RECOMMENDATIONS_items_def)

lemma palette_length:
  "(k, p) \<in> set COLOR_RECOMMENDATIONS_items \<Longrightarrow> length p = 7"
  by (auto simp: COLOR_RECOMMENDATIONS_items_def)

lemma masked_channel_0:
  "length xs = length ms \<Longrightarrow>
     map fst (filter snd (zip (map (channel 0) xs) ms)) = map (fst \<circ> fst) (filter snd (zip xs ms))"
  by (induction xs ms rule: list_induct2) (simp_all add: channel_0)

lemma bool_index_detect_mask:
  assumes "M = strict_mask lab \<or> M = lenient_mask lab"
  shows "bool_index (channel_view 0 lab) M =
     Inr (map (fst \<circ> fst) (filter snd (zip (data lab) (data M))))"
proof -
  from assms have "same_shape (channel_view 0 lab) M" and "length (data lab) = length (data M)"
    by (auto simp: same_shape_def channel_view_def strict_mask_def lenient_mask_def skin_mask_def)
  then show ?thesis
    by (simp add: bool_index_def masked_channel_0) (simp add: channel_view_def masked_channel_0)
qed

lemma detect_skin_tone_Inr:
  assumes "rgb2lab img = Inr lab"
    and "M = (if np_sum (strict_mask lab) < 100 then lenient_mask lab else strict_mask lab)"
  shows "detect_skin_tone rgb2lab img =
     (if np_sum M < 100 then ''Medium''
      else classify (np_mean (map (fst \<circ> fst) (filter snd (zip (data lab) (data M))))))"
proof -
  have M: "detect_mask lab = M"
    by (simp add: detect_mask_def assms(2))
  have "M = strict_mask lab \<or> M = lenient_mask lab"
    by (simp add: assms(2))
  then show ?thesis
    by (simp add: detect_skin_tone_def detect_skin_tone_try_def assms(1) M
        bool_index_detect_mask)
qed

lemma classify_in_categories: "classify m \<in> set SKIN_TONE_CATEGORIES"
  by (simp add: classify_def SKIN_TONE_CATEGORIES_def)

lemma adjust_skin_tone_cases:
  "adjust_skin_tone rgb2lab lab2rgb h img t =
     (case rgb2lab (h ! img) of
        Inl e \<Rightarrow> (h, img)
      | Inr lab \<Rightarrow>
          (case lab2rgb (F64 (spec_adjusted_lab lab t)) of
             Inl e \<Rightarrow> (h @ [F64 lab, F64 (spec_adjusted_lab lab t)], img)
           | Inr rgbf \<Rightarrow>
               (h @ [F64 lab, F64 (spec_adjusted_lab lab t), U8 (quantize rgbf)], length h + 2)))"
proof (cases "rgb2lab (h ! img)")
  case (Inl e)
  then show ?thesis
    by (simp add: adjust_skin_tone_def adjust_skin_tone_try_def)
next
  case (Inr lab)
  then show ?thesis
    by (simp add: adjust_skin_tone_def adjust_skin_tone_try_Inr split: sum.splits)
qed



lemma detect_skin_tone_try_Inl:
  "detect_skin_tone_try rgb2lab v = Inl e \<longleftrightarrow> rgb2lab v = Inl e"
proof (cases "rgb2lab v")
  case (Inl e')
  then show ?thesis
    by (simp add: detect_skin_tone_try_def)
next
  case (Inr lab)
  have "detect_mask lab = strict_mask lab \<or> detect_mask lab = lenient_mask lab"
    by (simp add: detect_mask_def Let_def)
  with Inr show ?thesis
    by (auto simp: detect_skin_tone_try_def Let_def bool_index_detect_mask)
qed

lemma detect_skin_tone_in_categories:
  "detect_skin_tone rgb2lab v \<in> set SKIN_TONE_CATEGORIES"
proof (cases "rgb2lab v")
  case (Inl e)
  then show ?thesis
    by (simp add: detect_skin_tone_def detect_skin_tone_try_def SKIN_TONE_CATEGORIES_def)
next
  case (Inr lab)
  have "''Medium'' \<in> set SKIN_TONE_CATEGORIES"
    by (simp add: SKIN_TONE_CATEGORIES_def)
  with Inr show ?thesis
    using detect_skin_tone_Inr [of rgb2lab v lab, OF _ refl] classify_in_categories
    by simp
qed

lemma adjust_skin_tone_frame:
  assumes "adjust_skin_tone rgb2lab lab2rgb h img t = (h', r)" and "img < length h"
  shows "r < length h' \<and> take (length h) h' = h \<and> h' ! img = h ! img"
  using assms
  by (auto simp: adjust_skin_tone_cases nth_append split: sum.splits)


lemma adjust_skin_tone_try_Inl:
  assumes "adjust_skin_tone_try rgb2lab lab2rgb h img t = (h', Inl e)"
  shows "adjust_skin_tone rgb2lab lab2rgb h img t = (h', img)"
  using assms by (simp add: adjust_skin_tone_def)

lemma to_lower_upper:
  "to_lower CHR ''F'' = CHR ''f''" "to_lower CHR ''L'' = CHR ''l''" "to_lower CHR ''M'' = CHR ''m''"
  "to_lower CHR ''O'' = CHR ''o''" "to_lower CHR ''T'' = CHR ''t''" "to_lower CHR ''D'' = CHR ''d''"
  by (simp_all add: to_lower_def)

lemma to_lower_lower:
  "to_lower CHR ''a'' = CHR ''a''" "to_lower CHR ''d'' = CHR ''d''" "to_lower CHR ''e'' = CHR ''e''"
  "to_lower CHR ''g'' = CHR ''g''" "to_lower CHR ''h'' = CHR ''h''"
  "to_lower CHR ''i'' = CHR ''i''" "to_lower CHR ''k'' = CHR ''k''" "to_lower CHR ''l'' = CHR ''l''"
  "to_lower CHR ''m'' = CHR ''m''" "to_lower CHR ''n'' = CHR ''n''" "to_lower CHR ''p'' = CHR ''p''"
  "to_lower CHR ''r'' = CHR ''r''" "to_lower CHR ''t'' = CHR ''t''" "to_lower CHR ''u'' = CHR ''u''"
  "to_lower CHR ''v'' = CHR ''v''"
  by (simp_all add: to_lower_def)

lemma lower_categories:
  "map to_lower ''Fair'' = ''fair''" "map to_lower ''Light'' = ''light''"
  "map to_lower ''Medium'' = ''medium''" "map to_lower ''Olive'' = ''olive''"
  "map to_lower ''Tan'' = ''tan''" "map to_lower ''Deep'' = ''deep''"
  "map to_lower ''Dark'' = ''dark''"
  by (simp_all add: to_lower_upper to_lower_lower)

lemma lower_inj_on_categories:
  assumes "x \<in> set SKIN_TONE_CATEGORIES" and "y \<in> set SKIN_TONE_CATEGORIES"
    and "map to_lower x = map to_lower y"
  shows "x = y"
proof -
  define canon :: "string \<Rightarrow> string" where
    "canon l = (if l = ''fair'' then ''Fair'' else if l = ''light'' then ''Light''
       else if l = ''medium'' then ''Medium'' else if l = ''olive'' then ''Olive''
       else if l = ''tan'' then ''Tan'' else if l = ''deep'' then ''Deep'' else ''Dark'')" for l
  have canon: "canon (map to_lower z) = z" if "z \<in> set SKIN_TONE_CATEGORIES" for z
  proof -
    from that have "z = ''Fair'' \<or> z = ''Light'' \<or> z = ''Medium'' \<or> z = ''Olive'' \<or>
        z = ''Tan'' \<or> z = ''Deep'' \<or> z = ''Dark''"
      by (simp add: SKIN_TONE_CATEGORIES_def)
    then show ?thesis
      by (elim disjE) (simp_all only: lower_categories, simp_all add: canon_def)
  qed
  from assms have "canon (map to_lower x) = canon (map to_lower y)"
    by simp
  with assms(1,2) show ?thesis
    by (simp only: canon)
qed

lemma no_case_variant_is_category:
  assumes "c \<in> set SKIN_TONE_CATEGORIES" and "differs_only_in_case s c"
  shows "s \<notin> set SKIN_TONE_CATEGORIES"
  using assms lower_inj_on_categories [of s c]
  by (auto simp: differs_only_in_case_def)


section \<open>Classification by mean lightness\<close>



section \<open>The two passes of the detector\<close>

text \<open>
  Claim C2. Each mask is the conjunction of the inclusive range tests of the three
  channels: L in [50, 80], a in [5, 30], b in [10, 40] for the strict mask and L in
  [30, 90], a in [0, 35], b in [5, 45] for the lenient one. The detector classifies on
  the strict mask when it has at least 100 true pixels, on the lenient mask when the
  strict mask has fewer than 100 and the lenient mask at least 100, and when the lenient
  mask has fewer than 100 as well it returns \<open>Medium\<close> from the body of the
  \<^verbatim>\<open>try\<close> block, whatever the mean lightness is.
\<close>

theorem detect_skin_tone_two_pass:
  assumes "rgb2lab img = Inr lab"
  shows "(\<forall>k < length (data lab).
       data (strict_mask lab) ! k =
         (case data lab ! k of (l, a, b) \<Rightarrow>
            50 \<le> l \<and> l \<le> 80 \<and> 5 \<le> a \<and> a \<le> 30 \<and> 10 \<le> b \<and> b \<le> 40)) \<and>
    (\<forall>k < length (data lab).
       data (lenient_mask lab) ! k =
         (case data lab ! k of (l, a, b) \<Rightarrow>
            30 \<le> l \<and> l \<le> 90 \<and> 0 \<le> a \<and> a \<le> 35 \<and> 5 \<le> b \<and> b \<le> 45)) \<and>
    detect_mask lab =
      (if np_sum (strict_mask lab) < 100 then lenient_mask lab else strict_mask lab) \<and>
    (100 \<le> np_sum (strict_mask lab) \<longrightarrow>
       detect_skin_tone rgb2lab img =
         classify (np_mean (map (fst \<circ> fst)
           (filter snd (zip (data lab) (data (strict_mask lab))))))) \<and>
    (np_sum (strict_mask lab) < 100 \<and> 100 \<le> np_sum (lenient_mask lab) \<longrightarrow>
       detect_skin_tone rgb2lab img =
         classify (np_mean (map (fst \<circ> fst)
           (filter snd (zip (data lab) (data (lenient_mask lab))))))) \<and>
    (np_sum (strict_mask lab) < 100 \<and> np_sum (lenient_mask lab) < 100 \<longrightarrow>
       detect_skin_tone rgb2lab img = ''Medium'' \<and>
       detect_skin_tone_try rgb2lab img = Inr ''Medium'')"
proof (intro conjI)
  show "\<forall>k < length (data lab).
       data (strict_mask lab) ! k =
         (case data lab ! k of (l, a, b) \<Rightarrow>
            50 \<le> l \<and> l \<le> 80 \<and> 5 \<le> a \<and> a \<le> 30 \<and> 10 \<le> b \<and> b \<le> 40)"
    by (simp add: strict_mask_def skin_mask_def in_bands_def)
  show "\<forall>k < length (data lab).
       data (lenient_mask lab) ! k =
         (case data lab ! k of (l, a, b) \<Rightarrow>
            30 \<le> l \<and> l \<le> 90 \<and> 0 \<le> a \<and> a \<le> 35 \<and> 5 \<le> b \<and> b \<le> 45)"
    by (simp add: lenient_mask_def skin_mask_def in_bands_def)
  show "detect_mask lab =
      (if np_sum (strict_mask lab) < 100 then lenient_mask lab else strict_mask lab)"
    by (simp add: detect_mask_def)
  show "100 \<le> np_sum (strict_mask lab) \<longrightarrow>
       detect_skin_tone rgb2lab img =
         classify (np_mean (map (fst \<circ> fst)
           (filter snd (zip (data lab) (data (strict_mask lab))))))"
    using detect_skin_tone_Inr [of rgb2lab img lab "strict_mask lab"] assms by simp
  show "np_sum (strict_mask lab) < 100 \<and> 100 \<le> np_sum (lenient_mask lab) \<longrightarrow>
       detect_skin_tone rgb2lab img =
         classify (np_mean (map (fst \<circ> fst)
           (filter snd (zip (data lab) (data (lenient_mask lab))))))"
    using detect_skin_tone_Inr [of rgb2lab img lab "lenient_mask lab"] assms by simp
  show "np_sum (strict_mask lab) < 100 \<and> np_sum (lenient_mask lab) < 100 \<longrightarrow>
       detect_skin_tone rgb2lab img = ''Medium'' \<and>
       detect_skin_tone_try rgb2lab img = Inr ''Medium''"
    using detect_skin_tone_Inr [of rgb2lab img lab "lenient_mask lab"] assms
    by (simp add: detect_skin_tone_try_def detect_mask_def)
qed

theorem detect_skin_tone_two_pass_witness:
  "detect_skin_tone
      (\<lambda>_. Inr \<lparr>height = 10, width = 12, data = replicate 99 (60, 10, 20) @ replicate 21 (85, 2, 7)\<rparr>)
      (U8 \<lparr>height = 10, width = 12, data = replicate 120 (180, 140, 120)\<rparr>) = ''Olive'' \<and>
   detect_skin_tone
      (\<lambda>_. Inr \<lparr>height = 10, width = 12, data = replicate 99 (60, 10, 20) @ replicate 21 (10, 0, 0)\<rparr>)
      (U8 \<lparr>height = 10, width = 12, data = replicate 120 (180, 140, 120)\<rparr>) = ''Medium'' \<and>
   detect_skin_tone
      (\<lambda>_. Inr \<lparr>height = 10, width = 12, data = replicate 100 (74, 10, 20) @ replicate 20 (85, 2, 7)\<rparr>)
      (U8 \<lparr>height = 10, width = 12, data = replicate 120 (180, 140, 120)\<rparr>) = ''Light''"
proof -
  define lab3 :: "lab array"
    where "lab3 = \<lparr>height = 10, width = 12, data = replicate 100 (74, 10, 20) @ replicate 20 (85, 2, 7)\<rparr>"
  have s3: "np_sum (strict_mask lab3) = 100"
    by (simp add: lab3_def np_sum_def strict_mask_def skin_mask_def in_bands_def filter_replicate)
  have m3: "np_mean (map (fst \<circ> fst) (filter snd (zip (data lab3) (data (strict_mask lab3))))) = 74"
    by (simp add: lab3_def strict_mask_def skin_mask_def in_bands_def np_mean_def
        filter_replicate sum_list_replicate)
  have third: "detect_skin_tone (\<lambda>_. Inr lab3)
      (U8 \<lparr>height = 10, width = 12, data = replicate 120 (180, 140, 120)\<rparr>) = ''Light''"
    using detect_skin_tone_two_pass [of "\<lambda>_. Inr lab3"
        "U8 \<lparr>height = 10, width = 12, data = replicate 120 (180, 140, 120)\<rparr>" lab3]
    by (simp add: s3 m3 classify_def)
  define lab1 :: "lab array"
    where "lab1 = \<lparr>height = 10, width = 12, data = replicate 99 (60, 10, 20) @ replicate 21 (85, 2, 7)\<rparr>"
  define lab2 :: "lab array"
    where "lab2 = \<lparr>height = 10, width = 12, data = replicate 99 (60, 10, 20) @ replicate 21 (10, 0, 0)\<rparr>"
  have s1: "np_sum (strict_mask lab1) = 99" and l1: "np_sum (lenient_mask lab1) = 120"
    and s2: "np_sum (strict_mask lab2) = 99" and l2: "np_sum (lenient_mask lab2) = 99"
    by (simp_all add: lab1_def lab2_def np_sum_def strict_mask_def lenient_mask_def skin_mask_def
        in_bands_def filter_replicate)
  have m1: "np_mean (map (fst \<circ> fst) (filter snd (zip (data lab1) (data (lenient_mask lab1))))) = 64 + 3 / 8"
    by (simp add: lab1_def lenient_mask_def skin_mask_def in_bands_def np_mean_def
        filter_replicate sum_list_replicate)
  have "detect_skin_tone (\<lambda>_. Inr lab1)
      (U8 \<lparr>height = 10, width = 12, data = replicate 120 (180, 140, 120)\<rparr>) = ''Olive''"
    using detect_skin_tone_two_pass [of "\<lambda>_. Inr lab1"
        "U8 \<lparr>height = 10, width = 12, data = replicate 120 (180, 140, 120)\<rparr>" lab1]
    by (simp add: s1 l1 m1 classify_def)
  moreover have "detect_skin_tone (\<lambda>_. Inr lab2)
      (U8 \<lparr>height = 10, width = 12, data = replicate 120 (180, 140, 120)\<rparr>) = ''Medium''"
    using detect_skin_tone_two_pass [of "\<lambda>_. Inr lab2"
        "U8 \<lparr>height = 10, width = 12, data = replicate 120 (180, 140, 120)\<rparr>" lab2]
    by (simp add: s2 l2)
  ultimately show ?thesis
    using third by (simp add: lab1_def lab2_def lab3_def)
qed

section \<open>The adjustment refines its specification\<close>



section \<open>Palette lookup is total\<close>

text \<open>
  Claim C4. The keys of the palette table are distinct. For a string that is a key of
  the table, \<open>get_color_recommendations\<close> returns the sequence stored under it; every one
  of the seven category names is such a key. For any other string it returns the
  sequence stored under \<open>Medium\<close>. In every case the lookup returns a sequence of seven
  entries and never the error branch.
\<close>

theorem get_color_recommendations_total:
  "distinct (map fst COLOR_RECOMMENDATIONS_items) \<and>
   (\<forall>p. (s, p) \<in> set COLOR_RECOMMENDATIONS_items \<longrightarrow> get_color_recommendations s = Inr p) \<and>
   (s \<in> set SKIN_TONE_CATEGORIES \<longrightarrow>
      (\<exists>p. (s, p) \<in> set COLOR_RECOMMENDATIONS_items \<and> get_color_recommendations s = Inr p)) \<and>
   (s \<notin> set SKIN_TONE_CATEGORIES \<longrightarrow>
      get_color_recommendations s =
        Inr [''#FF6347'', ''#6B8E23'', ''#4169E1'', ''#BA55D3'', ''#20B2AA'', ''#CD5C5C'', ''#DAA520'']) \<and>
   (\<exists>p. get_color_recommendations s = Inr p \<and> length p = 7)"
proof -
  have known: "get_color_recommendations s = Inr p"
    if "(s, p) \<in> set COLOR_RECOMMENDATIONS_items" for p
  proof -
    from that have "COLOR_RECOMMENDATIONS s = Some p"
      by (simp add: COLOR_RECOMMENDATIONS_def distinct_COLOR_RECOMMENDATIONS_keys)
    then show ?thesis
      by (simp add: get_color_recommendations_def subscript_def dom_def)
  qed
  have member: "\<exists>p. (s, p) \<in> set COLOR_RECOMMENDATIONS_items"
    if "s \<in> set SKIN_TONE_CATEGORIES"
  proof -
    from that have "s \<in> dom COLOR_RECOMMENDATIONS"
      by (simp add: dom_COLOR_RECOMMENDATIONS)
    then obtain p where "map_of COLOR_RECOMMENDATIONS_items s = Some p"
      by (auto simp: COLOR_RECOMMENDATIONS_def)
    then show ?thesis by (blast dest: map_of_SomeD)
  qed
  have unknown: "get_color_recommendations s =
      Inr [''#FF6347'', ''#6B8E23'', ''#4169E1'', ''#BA55D3'', ''#20B2AA'', ''#CD5C5C'', ''#DAA520'']"
    if "s \<notin> set SKIN_TONE_CATEGORIES"
    using that
    by (simp add: get_color_recommendations_def dom_COLOR_RECOMMENDATIONS subscript_def
        Medium_palette)
  have total: "\<exists>p. get_color_recommendations s = Inr p \<and> length p = 7"
  proof (cases "s \<in> set SKIN_TONE_CATEGORIES")
    case True
    with member obtain p where "(s, p) \<in> set COLOR_RECOMMENDATIONS_items" by blast
    with known palette_length show ?thesis by blast
  next
    case False
    with unknown show ?thesis by simp
  qed
  from known member unknown total distinct_COLOR_RECOMMENDATIONS_keys show ?thesis
    by blast
qed

theorem get_color_recommendations_total_witness:
  "get_color_recommendations ''Deep'' =
     Inr [''#FFA500'', ''#00FF00'', ''#FF00FF'', ''#00FFFF'', ''#FFFF00'', ''#800080'', ''#DC143C''] \<and>
   get_color_recommendations ''Not-A-Category'' =
     Inr [''#FF6347'', ''#6B8E23'', ''#4169E1'', ''#BA55D3'', ''#20B2AA'', ''#CD5C5C'', ''#DAA520'']"
proof -
  have "(''Deep'', [''#FFA500'', ''#00FF00'', ''#FF00FF'', ''#00FFFF'', ''#FFFF00'', ''#800080'', ''#DC143C''])
      \<in> set COLOR_RECOMMENDATIONS_items"
    by (simp add: COLOR_RECOMMENDATIONS_items_def)
  moreover have "''Not-A-Category'' \<notin> set SKIN_TONE_CATEGORIES"
    by (simp add: SKIN_TONE_CATEGORIES_def)
  ultimately show ?thesis
    using get_color_recommendations_total [of "''Deep''"]
      get_color_recommendations_total [of "''Not-A-Category''"]
    by blast
qed

section \<open>Pixels outside the mask\<close>



section \<open>Failures are absorbed\<close>

text \<open>
  Claim C6. The body of the \<^verbatim>\<open>try\<close> block of \<open>detect_skin_tone\<close> raises only when the
  conversion raises, and then the function returns \<open>Medium\<close>; its result is always one
  of the seven categories. When the body of the \<^verbatim>\<open>try\<close> block of \<open>adjust_skin_tone\<close>
  raises, the function returns the reference it was given, and the array behind it is the
  one the caller passed. On every path the call leaves all arrays that were in the
  store before it as they were, the input raster among them, and returns a reference to
  an array of the store.
\<close>

theorem never_raises:
  "(\<forall>e. detect_skin_tone_try rgb2lab v = Inl e \<longrightarrow>
        rgb2lab v = Inl e \<and> detect_skin_tone rgb2lab v = ''Medium'') \<and>
   detect_skin_tone rgb2lab v \<in> set SKIN_TONE_CATEGORIES \<and>
   (img < length h \<longrightarrow>
      (\<forall>h' e. adjust_skin_tone_try rgb2lab lab2rgb h img t = (h', Inl e) \<longrightarrow>
         adjust_skin_tone rgb2lab lab2rgb h img t = (h', img) \<and> h' ! img = h ! img) \<and>
      (\<forall>h' r. adjust_skin_tone rgb2lab lab2rgb h img t = (h', r) \<longrightarrow>
         r < length h' \<and> take (length h) h' = h \<and> h' ! img = h ! img))"
proof (intro conjI allI impI)
  fix e
  assume raised: "detect_skin_tone_try rgb2lab v = Inl e"
  then show "rgb2lab v = Inl e"
    by (simp add: detect_skin_tone_try_Inl)
  from raised show "detect_skin_tone rgb2lab v = ''Medium''"
    by (simp add: detect_skin_tone_def)
next
  show "detect_skin_tone rgb2lab v \<in> set SKIN_TONE_CATEGORIES"
    by (rule detect_skin_tone_in_categories)
next
  fix h' e
  assume valid: "img < length h"
    and raised: "adjust_skin_tone_try rgb2lab lab2rgb h img t = (h', Inl e)"
  from raised show caught: "adjust_skin_tone rgb2lab lab2rgb h img t = (h', img)"
    by (rule adjust_skin_tone_try_Inl)
  from adjust_skin_tone_frame [OF caught valid] show "h' ! img = h ! img"
    by simp
next
  fix h' r
  assume "img < length h" and "adjust_skin_tone rgb2lab lab2rgb h img t = (h', r)"
  from adjust_skin_tone_frame [OF this(2) this(1)]
  show "r < length h'" and "take (length h) h' = h" and "h' ! img = h ! img"
    by simp_all
qed

theorem never_raises_witness:
  "detect_skin_tone (\<lambda>_. Inl Exception)
      (U8 \<lparr>height = 2, width = 2, data = [(1, 2, 3), (4, 5, 6), (7, 8, 9), (10, 11, 12)]\<rparr>) = ''Medium'' \<and>
   adjust_skin_tone (\<lambda>_. Inl Exception) (\<lambda>_. Inl Exception)
      [U8 \<lparr>height = 2, width = 2, data = [(1, 2, 3), (4, 5, 6), (7, 8, 9), (10, 11, 12)]\<rparr>] 0 ''Fair'' =
     ([U8 \<lparr>height = 2, width = 2, data = [(1, 2, 3), (4, 5, 6), (7, 8, 9), (10, 11, 12)]\<rparr>], 0)"
proof -
  define v where "v = U8 \<lparr>height = 2, width = 2, data = [(1, 2, 3), (4, 5, 6), (7, 8, 9), (10, 11, 12)]\<rparr>"
  define conv :: "ndarray \<Rightarrow> error + lab array" where "conv = (\<lambda>_. Inl Exception)"
  have d: "detect_skin_tone_try conv v = Inl Exception"
    by (simp add: detect_skin_tone_try_def conv_def)
  have a: "adjust_skin_tone_try conv conv [v] 0 ''Fair'' = ([v], Inl Exception)"
    by (simp add: adjust_skin_tone_try_def conv_def)
  have valid: "0 < length [v]"
    by simp
  from never_raises [of conv v 0 "[v]" conv "''Fair''"] d a valid
  have "detect_skin_tone conv v = ''Medium'' \<and> adjust_skin_tone conv conv [v] 0 ''Fair'' = ([v], 0)"
    by blast
  then show ?thesis
    by (simp add: v_def conv_def)
qed

section \<open>Mask monotonicity\<close>

text \<open>
  Claim C7. On every Lab image the lenient mask has at least as many true pixels as the
  strict mask: every pixel of the strict mask is a pixel of the lenient mask, since each
  lenient interval contains the strict interval of the same channel.
\<close>

theorem lenient_count_ge_strict:
  "np_sum (strict_mask lab_image) \<le> np_sum (lenient_mask lab_image) \<and>
   (\<forall>k < length (data lab_image).
      data (strict_mask lab_image) ! k \<longrightarrow> data (lenient_mask lab_image) ! k) \<and>
   (\<forall>(l::real) (a::real) (b::real).
      50 \<le> l \<and> l \<le> 80 \<and> 5 \<le> a \<and> a \<le> 30 \<and> 10 \<le> b \<and> b \<le> 40 \<longrightarrow>
      30 \<le> l \<and> l \<le> 90 \<and> 0 \<le> a \<and> a \<le> 35 \<and> 5 \<le> b \<and> b \<le> 45)"
proof (intro conjI)
  show "np_sum (strict_mask lab_image) \<le> np_sum (lenient_mask lab_image)"
    by (rule np_sum_strict_le_lenient)
  show "\<forall>k < length (data lab_image).
      data (strict_mask lab_image) ! k \<longrightarrow> data (lenient_mask lab_image) ! k"
    by (simp add: strict_mask_def lenient_mask_def skin_mask_def strict_in_lenient)
  show "\<forall>(l::real) (a::real) (b::real).
      50 \<le> l \<and> l \<le> 80 \<and> 5 \<le> a \<and> a \<le> 30 \<and> 10 \<le> b \<and> b \<le> 40 \<longrightarrow>
      30 \<le> l \<and> l \<le> 90 \<and> 0 \<le> a \<and> a \<le> 35 \<and> 5 \<le> b \<and> b \<le> 45"
    by simp
qed

theorem lenient_count_ge_strict_witness:
  "np_sum (strict_mask \<lparr>height = 1, width = 3, data = [(60, 10, 20), (40, 2, 7), (10, 0, 0)]\<rparr>) = 1 \<and>
   np_sum (lenient_mask \<lparr>height = 1, width = 3, data = [(60, 10, 20), (40, 2, 7), (10, 0, 0)]\<rparr>) = 2 \<and>
   data (strict_mask \<lparr>height = 1, width = 3, data = [(60, 10, 20), (40, 2, 7), (10, 0, 0)]\<rparr>) ! 0 \<and>
   data (lenient_mask \<lparr>height = 1, width = 3, data = [(60, 10, 20), (40, 2, 7), (10, 0, 0)]\<rparr>) ! 0"
  using lenient_count_ge_strict [of "\<lparr>height = 1, width = 3, data = [(60, 10, 20), (40, 2, 7), (10, 0, 0)]\<rparr>"]
  by (simp add: np_sum_def strict_mask_def lenient_mask_def skin_mask_def in_bands_def)

section \<open>Determinism\<close>



section \<open>Fallback on sparse skin\<close>

text \<open>
  Claim C9. When no pixel of the Lab image lies in the strict or in the lenient bands,
  both masks are empty and \<open>detect_skin_tone\<close> returns \<open>Medium\<close>. In particular this holds
  for a raster of any size that is pure blue, RGB (0, 0, 255), at every pixel, as soon as
  the conversion sends blue to a Lab value outside both bands; the standard D65 transform
  sends it to about (32.30, 79.19, -107.86), whose a and b lie outside.
\<close>

theorem detect_skin_tone_no_skin:
  "(rgb2lab v = Inr lab \<and>
    (\<forall>px \<in> set (data lab).
       \<not> in_bands (50, 80) (5, 30) (10, 40) px \<and> \<not> in_bands (30, 90) (0, 35) (5, 45) px) \<longrightarrow>
      np_sum (strict_mask lab) = 0 \<and> np_sum (lenient_mask lab) = 0 \<and>
      detect_skin_tone rgb2lab v = ''Medium'') \<and>
   (rgb2lab (U8 \<lparr>height = hh, width = ww, data = replicate (hh * ww) (0, 0, 255)\<rparr>) =
      Inr \<lparr>height = hh, width = ww, data = replicate (hh * ww) blue\<rparr> \<and>
    \<not> in_bands (50, 80) (5, 30) (10, 40) blue \<and> \<not> in_bands (30, 90) (0, 35) (5, 45) blue \<longrightarrow>
      detect_skin_tone rgb2lab
        (U8 \<lparr>height = hh, width = ww, data = replicate (hh * ww) (0, 0, 255)\<rparr>) = ''Medium'')"
proof -
  have general: "np_sum (strict_mask lab) = 0 \<and> np_sum (lenient_mask lab) = 0 \<and>
      detect_skin_tone rgb2lab v = ''Medium''"
    if conv: "rgb2lab v = Inr lab"
      and none: "\<forall>px \<in> set (data lab).
       \<not> in_bands (50, 80) (5, 30) (10, 40) px \<and> \<not> in_bands (30, 90) (0, 35) (5, 45) px"
    for rgb2lab v lab
  proof -
    from none have "filter (in_bands (50, 80) (5, 30) (10, 40)) (data lab) = []"
      and "filter (in_bands (30, 90) (0, 35) (5, 45)) (data lab) = []"
      by (simp_all add: filter_empty_conv)
    then have counts: "np_sum (strict_mask lab) = 0" "np_sum (lenient_mask lab) = 0"
      by (simp_all add: strict_mask_def lenient_mask_def np_sum_skin_mask)
    with detect_skin_tone_Inr [of rgb2lab v lab, OF conv refl] show ?thesis
      by simp
  qed
  show ?thesis
  proof (intro conjI impI)
    assume "rgb2lab v = Inr lab \<and>
      (\<forall>px \<in> set (data lab).
         \<not> in_bands (50, 80) (5, 30) (10, 40) px \<and> \<not> in_bands (30, 90) (0, 35) (5, 45) px)"
    with general [of rgb2lab v lab]
    show "np_sum (strict_mask lab) = 0" and "np_sum (lenient_mask lab) = 0"
      and "detect_skin_tone rgb2lab v = ''Medium''"
      by simp_all
  next
    assume "rgb2lab (U8 \<lparr>height = hh, width = ww, data = replicate (hh * ww) (0, 0, 255)\<rparr>) =
        Inr \<lparr>height = hh, width = ww, data = replicate (hh * ww) blue\<rparr> \<and>
      \<not> in_bands (50, 80) (5, 30) (10, 40) blue \<and> \<not> in_bands (30, 90) (0, 35) (5, 45) blue"
    with general [of rgb2lab "U8 \<lparr>height = hh, width = ww, data = replicate (hh * ww) (0, 0, 255)\<rparr>"
        "\<lparr>height = hh, width = ww, data = replicate (hh * ww) blue\<rparr>"]
    show "detect_skin_tone rgb2lab
        (U8 \<lparr>height = hh, width = ww, data = replicate (hh * ww) (0, 0, 255)\<rparr>) = ''Medium''"
      by simp
  qed
qed

theorem detect_skin_tone_no_skin_witness:
  "detect_skin_tone
     (\<lambda>a. Inr \<lparr>height = height (u8 a), width = width (u8 a),
                data = map (\<lambda>px. if px = (0, 0, 255) then (3230 / 100, 7919 / 100, - 10786 / 100)
                                   else (60, 10, 20)) (data (u8 a))\<rparr>)
     (U8 \<lparr>height = 20, width = 30, data = replicate (20 * 30) (0, 0, 255)\<rparr>) = ''Medium'' \<and>
   np_sum (lenient_mask \<lparr>height = 20, width = 30,
     data = replicate (20 * 30) (3230 / 100, 7919 / 100, - 10786 / 100)\<rparr>) = 0"
proof -
  define rgb2lab :: "ndarray \<Rightarrow> error + lab array"
    where "rgb2lab = (\<lambda>a. Inr \<lparr>height = height (u8 a), width = width (u8 a),
                data = map (\<lambda>px. if px = (0, 0, 255) then (3230 / 100, 7919 / 100, - 10786 / 100)
                                   else (60, 10, 20)) (data (u8 a))\<rparr>)"
  define v where "v = U8 \<lparr>height = 20, width = 30, data = replicate (20 * 30) (0, 0, 255)\<rparr>"
  define lab :: "lab array" where "lab = \<lparr>height = 20, width = 30,
    data = replicate (20 * 30) (3230 / 100, 7919 / 100, - 10786 / 100)\<rparr>"
  have conv: "rgb2lab v = Inr lab"
    by (simp add: rgb2lab_def v_def lab_def)
  have outside: "\<not> in_bands (50, 80) (5, 30) (10, 40) (3230 / 100, 7919 / 100, - 10786 / 100)"
    "\<not> in_bands (30, 90) (0, 35) (5, 45) (3230 / 100, 7919 / 100, - 10786 / 100)"
    by (simp_all add: in_bands_def)
  then have none: "\<forall>px \<in> set (data lab).
       \<not> in_bands (50, 80) (5, 30) (10, 40) px \<and> \<not> in_bands (30, 90) (0, 35) (5, 45) px"
    by (simp add: lab_def)
  from detect_skin_tone_no_skin [of rgb2lab v lab 20 30 "(3230 / 100, 7919 / 100, - 10786 / 100)"]
    conv none outside
  have "detect_skin_tone rgb2lab v = ''Medium'' \<and> np_sum (lenient_mask lab) = 0"
    unfolding v_def lab_def by blast
  then show ?thesis
    by (simp add: rgb2lab_def v_def lab_def)
qed

section \<open>Category names are matched exactly\<close>

text \<open>
  Claim C10. A string that differs from a category name only in letter case is no key
  of any table: \<open>get_color_recommendations\<close> returns the palette of \<open>Medium\<close>, the three
  lookups of \<open>adjust_skin_tone\<close> give 65, 0 and 0, and the adjustment is the one for
  \<open>Medium\<close>. When the intended category is not \<open>Medium\<close>, the palette and the three
  values all differ from those of the intended category.
\<close>

theorem category_lookup_case_sensitive:
  assumes "c \<in> set SKIN_TONE_CATEGORIES" and "differs_only_in_case s c"
  shows "s \<notin> set SKIN_TONE_CATEGORIES \<and>
    get_color_recommendations s = get_color_recommendations ''Medium'' \<and>
    get_color_recommendations s =
      Inr [''#FF6347'', ''#6B8E23'', ''#4169E1'', ''#BA55D3'', ''#20B2AA'', ''#CD5C5C'', ''#DAA520''] \<and>
    dict_get target_l_values s 65 = 65 \<and>
    dict_get target_a_adjustments s 0 = 0 \<and>
    dict_get target_b_adjustments s 0 = 0 \<and>
    adjust_skin_tone rgb2lab lab2rgb h img s = adjust_skin_tone rgb2lab lab2rgb h img ''Medium'' \<and>
    (c \<noteq> ''Medium'' \<longrightarrow>
       get_color_recommendations s \<noteq> get_color_recommendations c \<and>
       dict_get target_l_values s 65 \<noteq> dict_get target_l_values c 65 \<and>
       dict_get target_a_adjustments s 0 \<noteq> dict_get target_a_adjustments c 0 \<and>
       dict_get target_b_adjustments s 0 \<noteq> dict_get target_b_adjustments c 0)"
proof -
  from assms have unknown: "s \<notin> set SKIN_TONE_CATEGORIES"
    by (rule no_case_variant_is_category)
  have palette: "get_color_recommendations s =
      Inr [''#FF6347'', ''#6B8E23'', ''#4169E1'', ''#BA55D3'', ''#20B2AA'', ''#CD5C5C'', ''#DAA520'']"
    using unknown
    by (simp add: get_color_recommendations_def dom_COLOR_RECOMMENDATIONS subscript_def
        Medium_palette)
  have medium: "get_color_recommendations ''Medium'' =
      Inr [''#FF6347'', ''#6B8E23'', ''#4169E1'', ''#BA55D3'', ''#20B2AA'', ''#CD5C5C'', ''#DAA520'']"
    by (simp add: get_color_recommendations_def subscript_def Medium_palette dom_def)
  have l: "dict_get target_l_values s 65 = 65"
    and a: "dict_get target_a_adjustments s 0 = 0"
    and b: "dict_get target_b_adjustments s 0 = 0"
    using unknown
    by (simp_all add: SKIN_TONE_CATEGORIES_def dict_get_def target_l_values_def
        target_a_adjustments_def target_b_adjustments_def)
  have spec: "spec_target_l s = spec_target_l ''Medium''"
    "spec_a_offset s = spec_a_offset ''Medium''" "spec_b_offset s = spec_b_offset ''Medium''"
    using unknown
    by (simp_all add: SKIN_TONE_CATEGORIES_def spec_target_l_def spec_a_offset_def
        spec_b_offset_def)
  have "spec_adjusted_lab lab s = spec_adjusted_lab lab ''Medium''" for lab
    by (simp add: spec_adjusted_lab_def spec)
  then have adjust: "adjust_skin_tone rgb2lab lab2rgb h img s =
      adjust_skin_tone rgb2lab lab2rgb h img ''Medium''"
    by (simp add: adjust_skin_tone_cases split: sum.splits)
  have other: "get_color_recommendations s \<noteq> get_color_recommendations c \<and>
       dict_get target_l_values s 65 \<noteq> dict_get target_l_values c 65 \<and>
       dict_get target_a_adjustments s 0 \<noteq> dict_get target_a_adjustments c 0 \<and>
       dict_get target_b_adjustments s 0 \<noteq> dict_get target_b_adjustments c 0"
    if "c \<noteq> ''Medium''"
    using assms(1) that unfolding palette l a b
    by (auto simp: SKIN_TONE_CATEGORIES_def get_color_recommendations_def subscript_def
        COLOR_RECOMMENDATIONS_def COLOR_RECOMMENDATIONS_items_def dom_def dict_get_def
        target_l_values_def target_a_adjustments_def target_b_adjustments_def)
  from unknown palette medium l a b adjust other show ?thesis
    by simp
qed

theorem category_lookup_case_sensitive_witness:
  "get_color_recommendations ''fair'' =
     Inr [''#FF6347'', ''#6B8E23'', ''#4169E1'', ''#BA55D3'', ''#20B2AA'', ''#CD5C5C'', ''#DAA520''] \<and>
   get_color_recommendations ''MEDIUM'' =
     Inr [''#FF6347'', ''#6B8E23'', ''#4169E1'', ''#BA55D3'', ''#20B2AA'', ''#CD5C5C'', ''#DAA520''] \<and>
   dict_get target_l_values ''fair'' 65 = 65 \<and>
   dict_get target_l_values ''fair'' 65 \<noteq> dict_get target_l_values ''Fair'' 65 \<and>
   dict_get target_a_adjustments ''fair'' 0 = 0 \<and>
   dict_get target_b_adjustments ''fair'' 0 = 0 \<and>
   dict_get target_l_values ''MEDIUM'' 65 = 65"
proof -
  have fair: "''Fair'' \<in> set SKIN_TONE_CATEGORIES"
    and medium: "''Medium'' \<in> set SKIN_TONE_CATEGORIES"
    by (simp_all add: SKIN_TONE_CATEGORIES_def)
  have fair': "differs_only_in_case ''fair'' ''Fair''"
    and medium': "differs_only_in_case ''MEDIUM'' ''Medium''"
    by (simp_all add: differs_only_in_case_def to_lower_def)
  have other: "''Fair'' \<noteq> ''Medium''"
    by simp
  from category_lookup_case_sensitive [OF fair fair', of "\<lambda>_. Inl Exception" "\<lambda>_. Inl Exception" "[]" 0]
    category_lookup_case_sensitive [OF medium medium', of "\<lambda>_. Inl Exception" "\<lambda>_. Inl Exception" "[]" 0]
    other
  show ?thesis
    by blast
qed

end
